theory Spec2Isabelle
  imports Complex_Main
begin

section \<open>Python values and exceptions\<close>

text \<open>
  Python floats are modelled as \<^typ>\<open>real\<close>: the comparisons and the arithmetic of the
  source are read over the reals, and NaN and the infinities are left out.  The model follows
  Python 3, where comparing \<open>None\<close> or a string with a float raises \<open>TypeError\<close>.

  The source raises \<open>KeyError\<close> for an index outside \<open>0..3\<close> and \<open>ValueError\<close>
  everywhere else; one \<open>ValueError\<close> differs from another only in its message, so the
  message is kept.  The names \<open>InvalidValue\<close>, \<open>NotSet\<close>
  and \<open>InvalidGeometry\<close> of the specification are the \<open>ValueError\<close> of a setter, of a
  getter and of \<open>_verify\<close>.

  \<open>KeyboardInterrupt\<close>, \<open>SystemExit\<close> and \<open>GeneratorExit\<close> derive from
  \<open>BaseException\<close> and not from \<open>Exception\<close>; the other exceptions of the model are
  subclasses of \<open>Exception\<close>.  A handler \<open>except Exception\<close> catches exactly the
  latter.
\<close>

datatype pyexc =
    ValueError string
  | KeyError
  | IndexError
  | TypeError
  | ZeroDivisionError
  | KeyboardInterrupt
  | SystemExit
  | GeneratorExit

fun is_Exception :: "pyexc \<Rightarrow> bool" where
  "is_Exception KeyboardInterrupt = False"
| "is_Exception SystemExit = False"
| "is_Exception GeneratorExit = False"
| "is_Exception _ = True"

text \<open>
  The values that an attribute, a dictionary entry or an indexed access may yield: \<open>None\<close>,
  a number, a frame or a string.  The type of frames is a parameter \<open>'f\<close>: the class
  \<open>Frame\<close> is imported by the source and defined elsewhere.
\<close>

datatype 'f pyval = PNone | PNum real | PFrame 'f | PStr string

text \<open>
  Python's \<open>a == b\<close>.  \<open>Frame.__eq__\<close> is not part of the source; it is the parameter
  \<open>feq\<close>, which receives the frame and the other operand.  A left operand that is not a
  frame returns \<open>NotImplemented\<close> for a frame on the right, and Python then asks the frame.
\<close>

fun py_eq :: "('f \<Rightarrow> 'f pyval \<Rightarrow> bool) \<Rightarrow> 'f pyval \<Rightarrow> 'f pyval \<Rightarrow> bool" where
  "py_eq feq (PFrame f) v = feq f v"
| "py_eq feq v (PFrame f) = feq f v"
| "py_eq feq PNone PNone = True"
| "py_eq feq (PNum a) (PNum b) = (a = b)"
| "py_eq feq (PStr s) (PStr t) = (s = t)"
| "py_eq feq _ _ = False"

section \<open>Arc\<close>

text \<open>\<open>PI2 = 2.0 * math.pi\<close>\<close>

definition PI2 :: real where
  "PI2 = 2 * pi"

text \<open>
  The attributes \<open>_frame\<close>, \<open>_radius\<close>, \<open>_start_angle\<close> and \<open>_end_angle\<close> of an
  \<open>Arc\<close>.  The last three are \<open>None\<close> until a setter has stored a number.
\<close>

record 'f Arc =
  arc_frame :: "'f pyval"
  arc_radius :: "real option"
  arc_start_angle :: "real option"
  arc_end_angle :: "real option"

text \<open>
  Modelled from the spec: the \<open>frame\<close> property of the base class \<open>Curve\<close>
  (\<open>curve.py\<close> is not among the sources).  The specification lists \<open>frame\<close> as a stored,
  settable attribute of an externally owned type, so the getter reads \<open>_frame\<close> and the
  setter stores its argument.
\<close>

definition frame :: "'f Arc \<Rightarrow> 'f pyval" where
  "frame self = arc_frame self"

definition frame_setter :: "'f Arc \<Rightarrow> 'f pyval \<Rightarrow> 'f Arc" where
  "frame_setter self v = self\<lparr>arc_frame := v\<rparr>"

subsection \<open>Properties\<close>

text \<open>
  A method that may assign to an attribute of \<open>self\<close> returns its result together with
  \<open>self\<close> afterwards; a method that never assigns returns its result alone.
\<close>

definition radius :: "'f Arc \<Rightarrow> pyexc + real" where
  "radius self =
     (case arc_radius self of
        None \<Rightarrow> Inl (ValueError ''Radius not set.'')
      | Some r \<Rightarrow> Inr r)"

definition radius_setter :: "'f Arc \<Rightarrow> real \<Rightarrow> (pyexc + unit) \<times> 'f Arc" where
  "radius_setter self v =
     (if v \<le> 0 then (Inl (ValueError ''Radius must be greater than or equal to zero.''), self)
      else (Inr (), self\<lparr>arc_radius := Some v\<rparr>))"

definition start_angle :: "'f Arc \<Rightarrow> real \<times> 'f Arc" where
  "start_angle self =
     (case arc_start_angle self of
        None \<Rightarrow> (0, self\<lparr>arc_start_angle := Some 0\<rparr>)
      | Some a \<Rightarrow> (a, self))"

definition start_angle_setter :: "'f Arc \<Rightarrow> real \<Rightarrow> (pyexc + unit) \<times> 'f Arc" where
  "start_angle_setter self v =
     (if v < 0 \<or> v > PI2
      then (Inl (ValueError ''Start angle must satisfy 0 <= angle <= 2 * pi.''), self)
      else (Inr (), self\<lparr>arc_start_angle := Some v\<rparr>))"

definition end_angle :: "'f Arc \<Rightarrow> pyexc + real" where
  "end_angle self =
     (case arc_end_angle self of
        None \<Rightarrow> Inl (ValueError ''End angle not set.'')
      | Some b \<Rightarrow> Inr b)"

definition end_angle_setter :: "'f Arc \<Rightarrow> real \<Rightarrow> (pyexc + unit) \<times> 'f Arc" where
  "end_angle_setter self v =
     (if v < 0 \<or> v > PI2
      then (Inl (ValueError ''End angle must satisfy 0 <= angle <= 2 * pi.''), self)
      else (Inr (), self\<lparr>arc_end_angle := Some v\<rparr>))"

text \<open>
  Modelled from the spec: the class \<open>Circle\<close> (not among the sources) supplies a frame and
  a radius; \<open>Circle(frame, radius)\<close> is the record of the two, and two circles are equal
  when both components are.
\<close>

record 'f Circle =
  circle_frame :: "'f pyval"
  circle_radius :: real

definition circle :: "'f Arc \<Rightarrow> pyexc + 'f Circle" where
  "circle self =
     (case radius self of
        Inl e \<Rightarrow> Inl e
      | Inr r \<Rightarrow> Inr \<lparr>circle_frame = frame self, circle_radius = r\<rparr>)"

text \<open>\<open>self.end_angle - self.start_angle\<close>: the left operand is evaluated first.\<close>

definition angle :: "'f Arc \<Rightarrow> (pyexc + real) \<times> 'f Arc" where
  "angle self =
     (case end_angle self of
        Inl e \<Rightarrow> (Inl e, self)
      | Inr b \<Rightarrow> (case start_angle self of (a, self') \<Rightarrow> (Inr (b - a), self')))"

definition length_arc :: "'f Arc \<Rightarrow> (pyexc + real) \<times> 'f Arc" where
  "length_arc self =
     (case radius self of
        Inl e \<Rightarrow> (Inl e, self)
      | Inr r \<Rightarrow>
          (case angle self of
             (Inl e, self') \<Rightarrow> (Inl e, self')
           | (Inr a, self') \<Rightarrow> (Inr (r * a), self')))"

definition diameter :: "'f Arc \<Rightarrow> pyexc + real" where
  "diameter self = (case radius self of Inl e \<Rightarrow> Inl e | Inr r \<Rightarrow> Inr (2 * r))"

definition circumference :: "'f Arc \<Rightarrow> pyexc + real" where
  "circumference self = (case diameter self of Inl e \<Rightarrow> Inl e | Inr d \<Rightarrow> Inr (d * pi))"

text \<open>
  \<open>_verify\<close>: \<open>self.angle\<close> is read once for each comparison, and the second comparison
  is reached only when the first is false.  The message is the format string of the source;
  the sweep angle that \<open>format\<close> inserts is not spelled out.
\<close>

definition verify :: "'f Arc \<Rightarrow> (pyexc + unit) \<times> 'f Arc" where
  "verify self =
     (let msg = ''Sweep angle must satisfy 0 < angle < 2 * Pi. Currently:{}'' in
      case angle self of
        (Inl e, s1) \<Rightarrow> (Inl e, s1)
      | (Inr a1, s1) \<Rightarrow>
          if a1 < 0 then (Inl (ValueError msg), s1)
          else
            (case angle s1 of
               (Inl e, s2) \<Rightarrow> (Inl e, s2)
             | (Inr a2, s2) \<Rightarrow>
                 if a2 > PI2 then (Inl (ValueError msg), s2) else (Inr (), s2)))"

subsection \<open>Construction\<close>

text \<open>
  \<open>__init__\<close>: the call of \<open>Curve.__init__\<close> stores the frame (modelled from the spec, see
  \<open>frame_setter\<close>), the three attributes are set to \<open>None\<close>, and the three setters run
  in order.  An exception of a setter leaves no object.  The arguments are numbers; the
  default values of the parameters are not part of the model.
\<close>

definition Arc_init :: "'f pyval \<Rightarrow> real \<Rightarrow> real \<Rightarrow> real \<Rightarrow> pyexc + 'f Arc" where
  "Arc_init fr r a b =
     (let s0 = \<lparr>arc_frame = fr, arc_radius = None, arc_start_angle = None, arc_end_angle = None\<rparr> in
      case radius_setter s0 r of
        (Inl e, _) \<Rightarrow> Inl e
      | (Inr _, s1) \<Rightarrow>
          (case start_angle_setter s1 a of
             (Inl e, _) \<Rightarrow> Inl e
           | (Inr _, s2) \<Rightarrow>
               (case end_angle_setter s2 b of
                  (Inl e, _) \<Rightarrow> Inl e
                | (Inr _, s3) \<Rightarrow> Inr s3)))"

definition from_circle :: "'f Circle \<Rightarrow> real \<Rightarrow> real \<Rightarrow> pyexc + 'f Arc" where
  "from_circle c a b = Arc_init (circle_frame c) (circle_radius c) a b"

subsection \<open>Indexed access and equality\<close>

definition getitem :: "'f Arc \<Rightarrow> int \<Rightarrow> (pyexc + 'f pyval) \<times> 'f Arc" where
  "getitem self key =
     (if key = 0 then (Inr (frame self), self)
      else if key = 1 then
        (case radius self of Inl e \<Rightarrow> (Inl e, self) | Inr r \<Rightarrow> (Inr (PNum r), self))
      else if key = 2 then
        (case start_angle self of (a, self') \<Rightarrow> (Inr (PNum a), self'))
      else if key = 3 then
        (case end_angle self of Inl e \<Rightarrow> (Inl e, self) | Inr b \<Rightarrow> (Inr (PNum b), self))
      else (Inl KeyError, self))"

text \<open>
  The right operand of \<open>==\<close> is any object.  It is an \<open>Arc\<close>, a list or tuple, or an
  object of some other class, which is described by what its indexed access returns:
  a value or an exception of any class (an object without \<open>__getitem__\<close> raises
  \<open>TypeError\<close> at every index).
\<close>

datatype 'f pyobj =
    ArcObj "'f Arc"
  | ListObj "'f pyval list"
  | OtherObj "int \<Rightarrow> pyexc + 'f pyval"

text \<open>\<open>other[key]\<close>; a list counts a negative index from its end.\<close>

fun subscript :: "'f pyobj \<Rightarrow> int \<Rightarrow> (pyexc + 'f pyval) \<times> 'f pyobj" where
  "subscript (ArcObj a) key = (case getitem a key of (r, a') \<Rightarrow> (r, ArcObj a'))"
| "subscript (ListObj xs) key =
     (let n = int (length xs); j = (if key < 0 then n + key else key)
      in if 0 \<le> j \<and> j < n then (Inr (xs ! nat j), ListObj xs) else (Inl IndexError, ListObj xs))"
| "subscript (OtherObj g) key = (g key, OtherObj g)"

text \<open>
  The \<open>try\<close> block of \<open>__eq__\<close>: the four reads \<open>other[0]\<close>, ..., \<open>other[3]\<close> in order,
  stopping at the first exception.
\<close>

definition components ::
  "'f pyobj \<Rightarrow> (pyexc + 'f pyval \<times> 'f pyval \<times> 'f pyval \<times> 'f pyval) \<times> 'f pyobj" where
  "components other =
     (case subscript other 0 of
        (Inl e, o0) \<Rightarrow> (Inl e, o0)
      | (Inr other_frame, o0) \<Rightarrow>
     (case subscript o0 1 of
        (Inl e, o1) \<Rightarrow> (Inl e, o1)
      | (Inr other_radius, o1) \<Rightarrow>
     (case subscript o1 2 of
        (Inl e, o2) \<Rightarrow> (Inl e, o2)
      | (Inr other_start, o2) \<Rightarrow>
     (case subscript o2 3 of
        (Inl e, o3) \<Rightarrow> (Inl e, o3)
      | (Inr other_end, o3) \<Rightarrow>
          (Inr (other_frame, other_radius, other_start, other_end), o3)))))"

text \<open>
  \<open>__eq__\<close>: \<open>except Exception\<close> turns an exception of the \<open>try\<close> block that
  derives from \<open>Exception\<close> into \<open>False\<close>; any other exception leaves \<open>__eq__\<close>
  unhandled.  The conjunction after it is outside the \<open>try\<close>; it evaluates from left to
  right and stops at the first false operand, so a getter of \<open>self\<close> runs only when the
  comparisons before it were true.  The result is the returned value, \<open>self\<close> afterwards and
  \<open>other\<close> afterwards (the two are taken to be different objects).
\<close>

definition eq ::
  "('f \<Rightarrow> 'f pyval \<Rightarrow> bool) \<Rightarrow> 'f Arc \<Rightarrow> 'f pyobj \<Rightarrow> (pyexc + bool) \<times> 'f Arc \<times> 'f pyobj" where
  "eq feq self other =
     (case components other of
        (Inl e, other') \<Rightarrow>
          if is_Exception e then (Inr False, self, other') else (Inl e, self, other')
      | (Inr (other_frame, other_radius, other_start, other_end), other') \<Rightarrow>
          if \<not> py_eq feq (frame self) other_frame then (Inr False, self, other')
          else
            (case radius self of
               Inl e \<Rightarrow> (Inl e, self, other')
             | Inr r \<Rightarrow>
                 if \<not> py_eq feq (PNum r) other_radius then (Inr False, self, other')
                 else
                   (case start_angle self of
                      (a, self') \<Rightarrow>
                        if \<not> py_eq feq (PNum a) other_start then (Inr False, self', other')
                        else
                          (case end_angle self' of
                             Inl e \<Rightarrow> (Inl e, self', other')
                           | Inr b \<Rightarrow> (Inr (py_eq feq (PNum b) other_end), self', other')))))"

subsection \<open>Data\<close>

text \<open>An attribute that holds \<open>None\<close> or a number, as a value.\<close>

definition num_val :: "real option \<Rightarrow> 'f pyval" where
  "num_val v = (case v of None \<Rightarrow> PNone | Some r \<Rightarrow> PNum r)"

text \<open>The \<open>data\<close> getter builds a dictionary from the four attributes as they are.\<close>

definition data :: "'f Arc \<Rightarrow> (string \<rightharpoonup> 'f pyval)" where
  "data self =
     [''frame'' \<mapsto> arc_frame self,
      ''radius'' \<mapsto> num_val (arc_radius self),
      ''start_angle'' \<mapsto> num_val (arc_start_angle self),
      ''end_angle'' \<mapsto> num_val (arc_end_angle self)]"

text \<open>
  \<open>self.attr = value[key]\<close> for one of the three numeric attributes: a missing key raises
  \<open>KeyError\<close>, and a value that is not a number raises \<open>TypeError\<close> in the comparison of
  the setter (a frame is taken to define no ordering with a float).
\<close>

definition assign_num ::
  "('f Arc \<Rightarrow> real \<Rightarrow> (pyexc + unit) \<times> 'f Arc) \<Rightarrow> 'f Arc \<Rightarrow> 'f pyval option
    \<Rightarrow> (pyexc + unit) \<times> 'f Arc" where
  "assign_num setter self entry =
     (case entry of
        None \<Rightarrow> (Inl KeyError, self)
      | Some (PNum v) \<Rightarrow> setter self v
      | Some _ \<Rightarrow> (Inl TypeError, self))"

text \<open>
  The \<open>data\<close> setter assigns the four entries in order; an exception leaves the
  assignments made before it in place.
\<close>

definition data_setter :: "'f Arc \<Rightarrow> (string \<rightharpoonup> 'f pyval) \<Rightarrow> (pyexc + unit) \<times> 'f Arc" where
  "data_setter self val =
     (case val ''frame'' of
        None \<Rightarrow> (Inl KeyError, self)
      | Some fr \<Rightarrow>
     (case assign_num radius_setter (frame_setter self fr) (val ''radius'') of
        (Inl e, s1) \<Rightarrow> (Inl e, s1)
      | (Inr _, s1) \<Rightarrow>
     (case assign_num start_angle_setter s1 (val ''start_angle'') of
        (Inl e, s2) \<Rightarrow> (Inl e, s2)
      | (Inr _, s2) \<Rightarrow> assign_num end_angle_setter s2 (val ''end_angle''))))"

section \<open>Quaternion\<close>

text \<open>The four attributes \<open>w\<close>, \<open>x\<close>, \<open>y\<close>, \<open>z\<close>.\<close>

record Quaternion =
  qw :: real
  qx :: real
  qy :: real
  qz :: real

text \<open>\<open>list(self)\<close>, through \<open>__iter__\<close>: a new list of the four components.\<close>

definition wxyz :: "Quaternion \<Rightarrow> real list" where
  "wxyz self = [qw self, qx self, qy self, qz self]"

text \<open>
  \<open>Quaternion(*p)\<close>: the constructor takes exactly four arguments, and any other number of
  them is a \<open>TypeError\<close>.  \<open>__init__\<close> stores \<open>float(w)\<close>, ..., \<open>float(z)\<close>, which
  for numbers are the numbers themselves.
\<close>

fun Quaternion_star :: "real list \<Rightarrow> pyexc + Quaternion" where
  "Quaternion_star [a, b, c, d] = Inr \<lparr>qw = a, qx = b, qy = c, qz = d\<rparr>"
| "Quaternion_star _ = Inl TypeError"

text \<open>
  \<open>self.w, self.x, self.y, self.z = p\<close>: unpacking a sequence that has not four elements
  raises \<open>ValueError\<close> before anything is assigned.
\<close>

fun assign_wxyz :: "Quaternion \<Rightarrow> real list \<Rightarrow> (pyexc + unit) \<times> Quaternion" where
  "assign_wxyz self [a, b, c, d] = (Inr (), self\<lparr>qw := a, qx := b, qy := c, qz := d\<rparr>)"
| "assign_wxyz self p =
     (Inl (ValueError (if length p < 4 then ''not enough values to unpack''
                       else ''too many values to unpack'')), self)"

text \<open>
  The free functions \<open>quaternion_multiply\<close>, \<open>quaternion_conjugate\<close>,
  \<open>quaternion_unitize\<close> and \<open>quaternion_canonize\<close> are imported by the source and defined
  elsewhere.  Each method takes the function it calls as its first argument \<open>fn\<close>: it maps
  a list of numbers to a list of numbers or raises.  The function receives a new list, so it
  has no access to the attributes of the quaternion.
\<close>

definition mul ::
  "(real list \<Rightarrow> real list \<Rightarrow> pyexc + real list) \<Rightarrow> Quaternion \<Rightarrow> Quaternion
    \<Rightarrow> (pyexc + Quaternion) \<times> Quaternion \<times> Quaternion" where
  "mul fn self other =
     (case fn (wxyz self) (wxyz other) of
        Inl e \<Rightarrow> (Inl e, self, other)
      | Inr p \<Rightarrow> (Quaternion_star p, self, other))"

definition conjugate ::
  "(real list \<Rightarrow> pyexc + real list) \<Rightarrow> Quaternion \<Rightarrow> (pyexc + Quaternion) \<times> Quaternion" where
  "conjugate fn self =
     (case fn (wxyz self) of
        Inl e \<Rightarrow> (Inl e, self)
      | Inr qc \<Rightarrow> (Quaternion_star qc, self))"

definition unitize ::
  "(real list \<Rightarrow> pyexc + real list) \<Rightarrow> Quaternion \<Rightarrow> (pyexc + unit) \<times> Quaternion" where
  "unitize fn self =
     (case fn (wxyz self) of
        Inl e \<Rightarrow> (Inl e, self)
      | Inr qu \<Rightarrow> assign_wxyz self qu)"

definition unitized ::
  "(real list \<Rightarrow> pyexc + real list) \<Rightarrow> Quaternion \<Rightarrow> (pyexc + Quaternion) \<times> Quaternion" where
  "unitized fn self =
     (case fn (wxyz self) of
        Inl e \<Rightarrow> (Inl e, self)
      | Inr qu \<Rightarrow> (Quaternion_star qu, self))"

definition canonize ::
  "(real list \<Rightarrow> pyexc + real list) \<Rightarrow> Quaternion \<Rightarrow> (pyexc + unit) \<times> Quaternion" where
  "canonize fn self =
     (case fn (wxyz self) of
        Inl e \<Rightarrow> (Inl e, self)
      | Inr qc \<Rightarrow> assign_wxyz self qc)"

definition canonized ::
  "(real list \<Rightarrow> pyexc + real list) \<Rightarrow> Quaternion \<Rightarrow> (pyexc + Quaternion) \<times> Quaternion" where
  "canonized fn self =
     (case fn (wxyz self) of
        Inl e \<Rightarrow> (Inl e, self)
      | Inr qc \<Rightarrow> (Quaternion_star qc, self))"

subsection \<open>The free functions, from the specification\<close>

text \<open>
  Modelled from the spec: \<open>quaternion_conjugate\<close> (the module
  \<open>compas.geometry.transformations\<close> is not among the sources): negate \<open>x\<close>, \<open>y\<close>,
  \<open>z\<close>, keep \<open>w\<close>.  A sequence of another length has no such components.
\<close>

fun quaternion_conjugate :: "real list \<Rightarrow> pyexc + real list" where
  "quaternion_conjugate [w, x, y, z] = Inr [w, - x, - y, - z]"
| "quaternion_conjugate _ = Inl IndexError"

text \<open>
  Modelled from the spec: \<open>quaternion_norm\<close> (not among the sources): the Euclidean length
  \<open>sqrt(w\<^sup>2 + x\<^sup>2 + y\<^sup>2 + z\<^sup>2)\<close>.
\<close>

definition quaternion_norm :: "real list \<Rightarrow> real" where
  "quaternion_norm q = sqrt (\<Sum>v\<leftarrow>q. v * v)"

text \<open>
  Modelled from the spec: \<open>quaternion_unitize\<close> (not among the sources): divide all four
  components by the norm, with an unguarded division, which raises when the norm is zero.
\<close>

definition quaternion_unitize :: "real list \<Rightarrow> pyexc + real list" where
  "quaternion_unitize q =
     (let n = quaternion_norm q
      in if n = 0 then Inl ZeroDivisionError else Inr (map (\<lambda>v. v / n) q))"

text \<open>
  Modelled from the spec: \<open>quaternion_canonize\<close> (not among the sources): flip all four
  signs if \<open>w < 0\<close>.
\<close>

fun quaternion_canonize :: "real list \<Rightarrow> pyexc + real list" where
  "quaternion_canonize [] = Inl IndexError"
| "quaternion_canonize (w # v) = Inr (if w < 0 then map uminus (w # v) else w # v)"

text \<open>
  Modelled from the spec: \<open>quaternion_multiply\<close> (not among the sources): the Hamilton
  product, by the standard bilinear formula.
\<close>

fun quaternion_multiply :: "real list \<Rightarrow> real list \<Rightarrow> pyexc + real list" where
  "quaternion_multiply [rw, rx, ry, rz] [sw, sx, sy, sz] =
     Inr [rw * sw - rx * sx - ry * sy - rz * sz,
          rw * sx + rx * sw + ry * sz - rz * sy,
          rw * sy - rx * sz + ry * sw + rz * sx,
          rw * sz + rx * sy - ry * sx + rz * sw]"
| "quaternion_multiply _ _ = Inl IndexError"

section \<open>Properties of Arc\<close>

subsection \<open>Shared facts\<close>

lemma verify_set:
  assumes "arc_start_angle A = Some a" "arc_end_angle A = Some b"
  shows "verify A = (if b - a < 0 \<or> b - a > PI2
      then (Inl (ValueError ''Sweep angle must satisfy 0 < angle < 2 * Pi. Currently:{}''), A)
      else (Inr (), A))"
  using assms by (simp add: verify_def angle_def end_angle_def start_angle_def Let_def)

lemma components_ArcObj:
  assumes "arc_radius B = Some rb" "arc_start_angle B = Some sb" "arc_end_angle B = Some eb"
  shows "components (ArcObj B) = (Inr (arc_frame B, PNum rb, PNum sb, PNum eb), ArcObj B)"
  using assms
  by (simp add: components_def getitem_def frame_def radius_def start_angle_def end_angle_def)

lemma eq_components_Inl:
  assumes "fst (components other) = Inl e" "is_Exception e"
  shows "eq feq A other = (Inr False, A, snd (components other))"
  using assms by (cases "components other") (simp add: eq_def)

lemma eq_components_Inl_uncaught:
  assumes "fst (components other) = Inl e" "\<not> is_Exception e"
  shows "eq feq A other = (Inl e, A, snd (components other))"
  using assms by (cases "components other") (simp add: eq_def)

lemma eq_components_Inr:
  assumes "components other = (Inr (v0, v1, v2, v3), other')"
    and "arc_frame A = PFrame fa" "arc_radius A = Some ra"
    and "arc_start_angle A = Some sa" "arc_end_angle A = Some ea"
  shows "eq feq A other =
     (Inr (feq fa v0 \<and> py_eq feq (PNum ra) v1 \<and> py_eq feq (PNum sa) v2 \<and> py_eq feq (PNum ea) v3),
      A, other')"
  using assms
  by (simp add: eq_def frame_def radius_def start_angle_def end_angle_def)

lemma dom_data: "dom (data A) = {''frame'', ''radius'', ''start_angle'', ''end_angle''}"
  by (auto simp: data_def)

lemma data_setter_data:
  assumes "arc_radius A = Some r" "0 < r"
    and "arc_start_angle A = Some a" "0 \<le> a" "a \<le> 2 * pi"
    and "arc_end_angle A = Some b" "0 \<le> b" "b \<le> 2 * pi"
  shows "data_setter B (data A) = (Inr (), A)"
  using assms
  by (simp add: data_setter_def data_def assign_num_def num_val_def frame_setter_def
      radius_setter_def start_angle_setter_def end_angle_setter_def PI2_def)

lemma Arc_init_valid:
  assumes "0 < r" "0 \<le> a" "a \<le> 2 * pi" "0 \<le> b" "b \<le> 2 * pi"
  shows "Arc_init fr r a b
     = Inr \<lparr>arc_frame = fr, arc_radius = Some r, arc_start_angle = Some a, arc_end_angle = Some b\<rparr>"
  using assms
  by (simp add: Arc_init_def radius_setter_def start_angle_setter_def end_angle_setter_def PI2_def)

subsection \<open>Verification of the sweep angle\<close>

text \<open>
  C1.  The claim: on an arc with all attributes set, \<open>_verify\<close> raises exactly when the
  sweep angle \<open>end_angle - start_angle\<close> is outside the interval \<open>(0, 2\<pi>]\<close>, so an arc
  that passes has a sweep angle strictly greater than zero.  The source compares with
  \<open>angle < 0.0\<close>, while its own message demands \<open>0 < angle\<close>: the arc
  \<open>Arc(frame, 1.0, 1.0, 1.0)\<close>, whose sweep angle is zero, passes \<open>_verify\<close> without an
  exception and unchanged.
\<close>

theorem verify_zero_sweep:
  "angle \<lparr>arc_frame = PFrame (), arc_radius = Some 1, arc_start_angle = Some 1, arc_end_angle = Some 1\<rparr>
     = (Inr 0, \<lparr>arc_frame = PFrame (), arc_radius = Some 1, arc_start_angle = Some 1, arc_end_angle = Some 1\<rparr>)
   \<and> verify \<lparr>arc_frame = PFrame (), arc_radius = Some 1, arc_start_angle = Some 1, arc_end_angle = Some 1\<rparr>
     = (Inr (), \<lparr>arc_frame = PFrame (), arc_radius = Some 1, arc_start_angle = Some 1, arc_end_angle = Some 1\<rparr>)"
  by (simp add: verify_def angle_def end_angle_def start_angle_def PI2_def)

subsection \<open>Setters\<close>

text \<open>
  C2.  For every real \<open>v\<close>, assigning \<open>radius = v\<close> raises the \<open>ValueError\<close> of the
  setter if and only if \<open>v \<le> 0\<close>, and otherwise stores \<open>v\<close>; assigning
  \<open>start_angle = v\<close> or \<open>end_angle = v\<close> raises it if and only if \<open>v < 0\<close> or
  \<open>v > 2\<pi>\<close>, and otherwise stores \<open>v\<close>; the boundary values \<open>0\<close> and \<open>2\<pi>\<close> are
  accepted and stored.
\<close>

theorem setter_bounds:
  "((\<exists>m. fst (radius_setter self v) = Inl (ValueError m)) \<longleftrightarrow> v \<le> 0)
   \<and> (\<not> v \<le> 0 \<longrightarrow> radius_setter self v = (Inr (), self\<lparr>arc_radius := Some v\<rparr>))
   \<and> ((\<exists>m. fst (start_angle_setter self v) = Inl (ValueError m)) \<longleftrightarrow> v < 0 \<or> v > 2 * pi)
   \<and> (\<not> (v < 0 \<or> v > 2 * pi) \<longrightarrow>
        start_angle_setter self v = (Inr (), self\<lparr>arc_start_angle := Some v\<rparr>))
   \<and> ((\<exists>m. fst (end_angle_setter self v) = Inl (ValueError m)) \<longleftrightarrow> v < 0 \<or> v > 2 * pi)
   \<and> (\<not> (v < 0 \<or> v > 2 * pi) \<longrightarrow>
        end_angle_setter self v = (Inr (), self\<lparr>arc_end_angle := Some v\<rparr>))
   \<and> start_angle_setter self 0 = (Inr (), self\<lparr>arc_start_angle := Some 0\<rparr>)
   \<and> start_angle_setter self (2 * pi) = (Inr (), self\<lparr>arc_start_angle := Some (2 * pi)\<rparr>)
   \<and> end_angle_setter self 0 = (Inr (), self\<lparr>arc_end_angle := Some 0\<rparr>)
   \<and> end_angle_setter self (2 * pi) = (Inr (), self\<lparr>arc_end_angle := Some (2 * pi)\<rparr>)"
  by (simp add: radius_setter_def start_angle_setter_def end_angle_setter_def PI2_def)

theorem setter_bounds_witness:
  "\<not> (1::real) \<le> 0 \<and> \<not> ((1::real) < 0 \<or> 1 > 2 * pi)
   \<and> radius_setter \<lparr>arc_frame = PFrame (), arc_radius = None, arc_start_angle = None, arc_end_angle = None\<rparr> 1
       = (Inr (), \<lparr>arc_frame = PFrame (), arc_radius = Some 1, arc_start_angle = None, arc_end_angle = None\<rparr>)
   \<and> start_angle_setter \<lparr>arc_frame = PFrame (), arc_radius = None, arc_start_angle = None, arc_end_angle = None\<rparr> 1
       = (Inr (), \<lparr>arc_frame = PFrame (), arc_radius = None, arc_start_angle = Some 1, arc_end_angle = None\<rparr>)
   \<and> end_angle_setter \<lparr>arc_frame = PFrame (), arc_radius = None, arc_start_angle = None, arc_end_angle = None\<rparr> 1
       = (Inr (), \<lparr>arc_frame = PFrame (), arc_radius = None, arc_start_angle = None, arc_end_angle = Some 1\<rparr>)"
proof -
  have h: "\<not> (1::real) \<le> 0 \<and> \<not> ((1::real) < 0 \<or> 1 > 2 * pi)"
    using pi_ge_two by simp
  show ?thesis
    using h setter_bounds [of "\<lparr>arc_frame = PFrame (), arc_radius = None, arc_start_angle = None, arc_end_angle = None\<rparr>" 1]
    by simp
qed

subsection \<open>Getters\<close>

text \<open>
  C3.  Reading \<open>radius\<close> or \<open>end_angle\<close> while the attribute is \<open>None\<close> raises the
  \<open>ValueError\<close> of the getter (\<open>NotSet\<close>); reading \<open>start_angle\<close> while it is
  \<open>None\<close> raises nothing, returns \<open>0.0\<close> and leaves \<open>0.0\<close> stored; and each of the
  three getters returns the stored value of an attribute that is set, changing nothing.
\<close>

theorem getters_unset_and_set:
  "(arc_radius self = None \<longrightarrow> radius self = Inl (ValueError ''Radius not set.''))
   \<and> (arc_end_angle self = None \<longrightarrow> end_angle self = Inl (ValueError ''End angle not set.''))
   \<and> (arc_start_angle self = None \<longrightarrow>
        start_angle self = (0, self\<lparr>arc_start_angle := Some 0\<rparr>))
   \<and> (arc_radius self = Some r \<longrightarrow> radius self = Inr r)
   \<and> (arc_start_angle self = Some a \<longrightarrow> start_angle self = (a, self))
   \<and> (arc_end_angle self = Some b \<longrightarrow> end_angle self = Inr b)"
  by (simp add: radius_def start_angle_def end_angle_def)

theorem getters_unset_and_set_witness:
  "radius \<lparr>arc_frame = PFrame (), arc_radius = None, arc_start_angle = None, arc_end_angle = None\<rparr>
     = Inl (ValueError ''Radius not set.'')
   \<and> end_angle \<lparr>arc_frame = PFrame (), arc_radius = None, arc_start_angle = None, arc_end_angle = None\<rparr>
     = Inl (ValueError ''End angle not set.'')
   \<and> start_angle \<lparr>arc_frame = PFrame (), arc_radius = None, arc_start_angle = None, arc_end_angle = None\<rparr>
     = (0, \<lparr>arc_frame = PFrame (), arc_radius = None, arc_start_angle = Some 0, arc_end_angle = None\<rparr>)
   \<and> radius \<lparr>arc_frame = PFrame (), arc_radius = Some 2, arc_start_angle = Some 1, arc_end_angle = Some 3\<rparr>
     = Inr 2
   \<and> start_angle \<lparr>arc_frame = PFrame (), arc_radius = Some 2, arc_start_angle = Some 1, arc_end_angle = Some 3\<rparr>
     = (1, \<lparr>arc_frame = PFrame (), arc_radius = Some 2, arc_start_angle = Some 1, arc_end_angle = Some 3\<rparr>)
   \<and> end_angle \<lparr>arc_frame = PFrame (), arc_radius = Some 2, arc_start_angle = Some 1, arc_end_angle = Some 3\<rparr>
     = Inr 3"
  using getters_unset_and_set [of "\<lparr>arc_frame = PFrame (), arc_radius = None, arc_start_angle = None, arc_end_angle = None\<rparr>"]
    getters_unset_and_set [of "\<lparr>arc_frame = PFrame (), arc_radius = Some 2, arc_start_angle = Some 1, arc_end_angle = Some 3\<rparr>" 2 1 3]
  by simp

subsection \<open>Equality\<close>

text \<open>
  C4.  The claim: for two arcs \<open>A\<close> and \<open>B\<close> with all four attributes set, \<open>A == B\<close>
  returns \<open>True\<close> if and only if the frames, the radii, the start angles and the end angles
  compare equal; and for every object from which the four components \<open>other[0]\<close>, ...,
  \<open>other[3]\<close> cannot be obtained, \<open>A == other\<close> returns \<open>False\<close> and never raises.

  The second half fails for an object whose indexed access raises an exception that does
  not derive from \<open>Exception\<close>: the handler of \<open>__eq__\<close> is \<open>except Exception\<close>, and
  a \<open>KeyboardInterrupt\<close> raised by \<open>other[0]\<close> leaves \<open>A == other\<close> unhandled.
\<close>

theorem eq_uncaught_counterexample:
  "fst (components (OtherObj (\<lambda>key. Inl KeyboardInterrupt) :: nat pyobj)) = Inl KeyboardInterrupt
   \<and> fst (eq (\<lambda>f v. v = PFrame f)
        \<lparr>arc_frame = PFrame (7::nat), arc_radius = Some 2, arc_start_angle = Some 1, arc_end_angle = Some 3\<rparr>
        (OtherObj (\<lambda>key. Inl KeyboardInterrupt)))
     = Inl KeyboardInterrupt
   \<and> fst (eq (\<lambda>f v. v = PFrame f)
        \<lparr>arc_frame = PFrame (7::nat), arc_radius = Some 2, arc_start_angle = Some 1, arc_end_angle = Some 3\<rparr>
        (OtherObj (\<lambda>key. Inl KeyboardInterrupt)))
     \<noteq> Inr False"
  by (simp add: eq_def components_def)

text \<open>
  C4, as amended.  For two arcs \<open>A\<close> and \<open>B\<close> with all four attributes set, \<open>A == B\<close>
  returns \<open>True\<close> if and only if the frames compare equal (by \<open>Frame.__eq__\<close>, the
  parameter \<open>feq\<close>) and the radii, the start angles and the end angles are equal, and
  neither arc changes.  For every object from which the four components \<open>other[0]\<close>, ...,
  \<open>other[3]\<close> cannot all be read because one of the reads raises an exception that derives
  from \<open>Exception\<close>, \<open>A == other\<close> returns \<open>False\<close> and raises nothing, whatever the
  arc \<open>A\<close> is.  An exception of a read that does not derive from \<open>Exception\<close> is raised
  by \<open>A == other\<close>.
\<close>

theorem eq_componentwise:
  "(arc_frame A = PFrame fa \<and> arc_radius A = Some ra \<and> arc_start_angle A = Some sa
      \<and> arc_end_angle A = Some ea
      \<and> arc_frame B = PFrame fb \<and> arc_radius B = Some rb \<and> arc_start_angle B = Some sb
      \<and> arc_end_angle B = Some eb
     \<longrightarrow> eq feq A (ArcObj B)
          = (Inr (feq fa (PFrame fb) \<and> ra = rb \<and> sa = sb \<and> ea = eb), A, ArcObj B))
   \<and> (fst (components other) = Inl e \<and> is_Exception e
     \<longrightarrow> eq feq A' other = (Inr False, A', snd (components other)))
   \<and> (fst (components other) = Inl e \<and> \<not> is_Exception e
     \<longrightarrow> eq feq A' other = (Inl e, A', snd (components other)))"
proof (intro conjI impI)
  assume h: "arc_frame A = PFrame fa \<and> arc_radius A = Some ra \<and> arc_start_angle A = Some sa
      \<and> arc_end_angle A = Some ea
      \<and> arc_frame B = PFrame fb \<and> arc_radius B = Some rb \<and> arc_start_angle B = Some sb
      \<and> arc_end_angle B = Some eb"
  then have c: "components (ArcObj B) = (Inr (PFrame fb, PNum rb, PNum sb, PNum eb), ArcObj B)"
    using components_ArcObj [of B rb sb eb] by simp
  show "eq feq A (ArcObj B)
          = (Inr (feq fa (PFrame fb) \<and> ra = rb \<and> sa = sb \<and> ea = eb), A, ArcObj B)"
    using h eq_components_Inr [OF c, of A fa ra sa ea feq] by simp
next
  assume "fst (components other) = Inl e \<and> is_Exception e"
  then show "eq feq A' other = (Inr False, A', snd (components other))"
    by (simp add: eq_components_Inl)
next
  assume "fst (components other) = Inl e \<and> \<not> is_Exception e"
  then show "eq feq A' other = (Inl e, A', snd (components other))"
    by (simp add: eq_components_Inl_uncaught)
qed

theorem eq_componentwise_witness:
  "eq (\<lambda>f v. v = PFrame f)
      \<lparr>arc_frame = PFrame (7::nat), arc_radius = Some 2, arc_start_angle = Some 1, arc_end_angle = Some 3\<rparr>
      (ArcObj \<lparr>arc_frame = PFrame 7, arc_radius = Some 2, arc_start_angle = Some 1, arc_end_angle = Some 3\<rparr>)
     = (Inr True,
        \<lparr>arc_frame = PFrame 7, arc_radius = Some 2, arc_start_angle = Some 1, arc_end_angle = Some 3\<rparr>,
        ArcObj \<lparr>arc_frame = PFrame 7, arc_radius = Some 2, arc_start_angle = Some 1, arc_end_angle = Some 3\<rparr>)
   \<and> fst (components (ListObj [PFrame (7::nat), PNum 2, PNum 1])) = Inl IndexError
   \<and> is_Exception IndexError
   \<and> eq (\<lambda>f v. v = PFrame f)
      \<lparr>arc_frame = PFrame (7::nat), arc_radius = Some 2, arc_start_angle = Some 1, arc_end_angle = Some 3\<rparr>
      (ListObj [PFrame 7, PNum 2, PNum 1])
     = (Inr False,
        \<lparr>arc_frame = PFrame 7, arc_radius = Some 2, arc_start_angle = Some 1, arc_end_angle = Some 3\<rparr>,
        ListObj [PFrame 7, PNum 2, PNum 1])
   \<and> fst (components (OtherObj (\<lambda>key. Inl SystemExit) :: nat pyobj)) = Inl SystemExit
   \<and> \<not> is_Exception SystemExit
   \<and> eq (\<lambda>f v. v = PFrame f)
      \<lparr>arc_frame = PFrame (7::nat), arc_radius = Some 2, arc_start_angle = Some 1, arc_end_angle = Some 3\<rparr>
      (OtherObj (\<lambda>key. Inl SystemExit))
     = (Inl SystemExit,
        \<lparr>arc_frame = PFrame 7, arc_radius = Some 2, arc_start_angle = Some 1, arc_end_angle = Some 3\<rparr>,
        OtherObj (\<lambda>key. Inl SystemExit))"
proof -
  have c: "components (ListObj [PFrame (7::nat), PNum 2, PNum 1])
             = (Inl IndexError, ListObj [PFrame 7, PNum 2, PNum 1])"
    by (simp add: components_def)
  have d: "components (OtherObj (\<lambda>key. Inl SystemExit) :: nat pyobj)
             = (Inl SystemExit, OtherObj (\<lambda>key. Inl SystemExit))"
    by (simp add: components_def)
  show ?thesis
    using c d
      eq_componentwise [of
        "\<lparr>arc_frame = PFrame (7::nat), arc_radius = Some 2, arc_start_angle = Some 1, arc_end_angle = Some 3\<rparr>"
        7 2 1 3
        "\<lparr>arc_frame = PFrame (7::nat), arc_radius = Some 2, arc_start_angle = Some 1, arc_end_angle = Some 3\<rparr>"
        7 2 1 3 "\<lambda>f v. v = PFrame f"
        "ListObj [PFrame 7, PNum 2, PNum 1]" IndexError
        "\<lparr>arc_frame = PFrame (7::nat), arc_radius = Some 2, arc_start_angle = Some 1, arc_end_angle = Some 3\<rparr>"]
      eq_componentwise [of
        "\<lparr>arc_frame = PFrame (7::nat), arc_radius = Some 2, arc_start_angle = Some 1, arc_end_angle = Some 3\<rparr>"
        7 2 1 3
        "\<lparr>arc_frame = PFrame (7::nat), arc_radius = Some 2, arc_start_angle = Some 1, arc_end_angle = Some 3\<rparr>"
        7 2 1 3 "\<lambda>f v. v = PFrame f"
        "OtherObj (\<lambda>key. Inl SystemExit)" SystemExit
        "\<lparr>arc_frame = PFrame (7::nat), arc_radius = Some 2, arc_start_angle = Some 1, arc_end_angle = Some 3\<rparr>"]
    by simp
qed

text \<open>
  C10.  Equality is duck-typed: for an arc \<open>A\<close> with all four attributes set and any object
  \<open>other\<close>, of whatever class, whose reads \<open>other[0]\<close>, ..., \<open>other[3]\<close> succeed and
  yield values that \<open>A\<close>'s frame, radius, start angle and end angle compare equal to,
  \<open>A == other\<close> returns \<open>True\<close>.  The plain list
  \<open>[A.frame, A.radius, A.start_angle, A.end_angle]\<close> is such an object when a frame equals
  itself.
\<close>

theorem eq_duck_typed:
  assumes "arc_frame A = PFrame fa" "arc_radius A = Some ra"
    and "arc_start_angle A = Some sa" "arc_end_angle A = Some ea"
    and "components other = (Inr (v0, v1, v2, v3), other')"
    and "py_eq feq (PFrame fa) v0" "py_eq feq (PNum ra) v1"
    and "py_eq feq (PNum sa) v2" "py_eq feq (PNum ea) v3"
  shows "eq feq A other = (Inr True, A, other')"
  using assms eq_components_Inr [of other v0 v1 v2 v3 other' A fa ra sa ea feq] by simp

theorem eq_duck_typed_witness:
  "components (ListObj [PFrame (7::nat), PNum 2, PNum 1, PNum 3])
     = (Inr (PFrame 7, PNum 2, PNum 1, PNum 3), ListObj [PFrame 7, PNum 2, PNum 1, PNum 3])
   \<and> eq (\<lambda>f v. v = PFrame f)
      \<lparr>arc_frame = PFrame (7::nat), arc_radius = Some 2, arc_start_angle = Some 1, arc_end_angle = Some 3\<rparr>
      (ListObj [PFrame 7, PNum 2, PNum 1, PNum 3])
     = (Inr True,
        \<lparr>arc_frame = PFrame 7, arc_radius = Some 2, arc_start_angle = Some 1, arc_end_angle = Some 3\<rparr>,
        ListObj [PFrame 7, PNum 2, PNum 1, PNum 3])"
proof -
  have c: "components (ListObj [PFrame (7::nat), PNum 2, PNum 1, PNum 3])
     = (Inr (PFrame 7, PNum 2, PNum 1, PNum 3), ListObj [PFrame 7, PNum 2, PNum 1, PNum 3])"
    by (simp add: components_def)
  show ?thesis
    using c
      eq_duck_typed [of
        "\<lparr>arc_frame = PFrame (7::nat), arc_radius = Some 2, arc_start_angle = Some 1, arc_end_angle = Some 3\<rparr>"
        7 2 1 3 "ListObj [PFrame 7, PNum 2, PNum 1, PNum 3]"
        "PFrame 7" "PNum 2" "PNum 1" "PNum 3" "ListObj [PFrame 7, PNum 2, PNum 1, PNum 3]"
        "\<lambda>f v. v = PFrame f"]
    by simp
qed

subsection \<open>Serialisation\<close>

text \<open>
  C5.  For every arc with its frame, its radius (greater than zero) and both angles (in
  \<open>[0, 2\<pi>]\<close>) set, the dictionary returned by \<open>data\<close> has exactly the four keys
  \<open>frame\<close>, \<open>radius\<close>, \<open>start_angle\<close> and \<open>end_angle\<close>, and assigning it to the
  \<open>data\<close> of any arc \<open>B\<close> raises nothing and leaves \<open>B\<close> with the attributes of the
  original, so that it is equal to the original by \<open>==\<close> (given that the frame compares
  equal to itself).
\<close>

theorem data_roundtrip:
  assumes "arc_frame A = PFrame f" "arc_radius A = Some r" "0 < r"
    and "arc_start_angle A = Some a" "0 \<le> a" "a \<le> 2 * pi"
    and "arc_end_angle A = Some b" "0 \<le> b" "b \<le> 2 * pi"
    and "feq f (PFrame f)"
  shows "dom (data A) = {''frame'', ''radius'', ''start_angle'', ''end_angle''}
     \<and> data_setter B (data A) = (Inr (), A)
     \<and> fst (eq feq (snd (data_setter B (data A))) (ArcObj A)) = Inr True"
proof -
  have s: "data_setter B (data A) = (Inr (), A)"
    using assms by (simp add: data_setter_data)
  have c: "components (ArcObj A) = (Inr (PFrame f, PNum r, PNum a, PNum b), ArcObj A)"
    using assms components_ArcObj [of A r a b] by simp
  have "eq feq A (ArcObj A) = (Inr True, A, ArcObj A)"
    using assms eq_components_Inr [OF c, of A f r a b feq] by simp
  with s show ?thesis by (simp add: dom_data)
qed

theorem data_roundtrip_witness:
  "dom (data \<lparr>arc_frame = PFrame (7::nat), arc_radius = Some 2, arc_start_angle = Some 1, arc_end_angle = Some 3\<rparr>)
     = {''frame'', ''radius'', ''start_angle'', ''end_angle''}
   \<and> data_setter \<lparr>arc_frame = PNone, arc_radius = None, arc_start_angle = None, arc_end_angle = None\<rparr>
        (data \<lparr>arc_frame = PFrame (7::nat), arc_radius = Some 2, arc_start_angle = Some 1, arc_end_angle = Some 3\<rparr>)
     = (Inr (), \<lparr>arc_frame = PFrame 7, arc_radius = Some 2, arc_start_angle = Some 1, arc_end_angle = Some 3\<rparr>)
   \<and> fst (eq (\<lambda>f v. v = PFrame f)
        (snd (data_setter \<lparr>arc_frame = PNone, arc_radius = None, arc_start_angle = None, arc_end_angle = None\<rparr>
           (data \<lparr>arc_frame = PFrame (7::nat), arc_radius = Some 2, arc_start_angle = Some 1, arc_end_angle = Some 3\<rparr>)))
        (ArcObj \<lparr>arc_frame = PFrame 7, arc_radius = Some 2, arc_start_angle = Some 1, arc_end_angle = Some 3\<rparr>))
     = Inr True"
proof -
  have h: "(1::real) \<le> 2 * pi" "(3::real) \<le> 2 * pi"
    using pi_ge_two by simp_all
  show ?thesis
    by (rule data_roundtrip [where f = 7 and r = 2 and a = 1 and b = 3]) (use h in simp_all)
qed

subsection \<open>Derived properties\<close>

text \<open>
  C6.  For every arc with radius \<open>r > 0\<close> and both angles set: the radius of \<open>circle\<close>
  is \<open>r\<close>, \<open>diameter\<close> is \<open>2 r\<close>, \<open>circumference\<close> is \<open>2 \<pi> r\<close>, \<open>angle\<close> is
  \<open>end_angle - start_angle\<close> and \<open>length\<close> is the radius times the angle; none of them
  changes the arc.
\<close>

theorem derived_properties:
  assumes "arc_radius A = Some r" "0 < r"
    and "arc_start_angle A = Some a" "arc_end_angle A = Some b"
  shows "circle A = Inr \<lparr>circle_frame = arc_frame A, circle_radius = r\<rparr>
     \<and> diameter A = Inr (2 * r)
     \<and> circumference A = Inr (2 * pi * r)
     \<and> angle A = (Inr (b - a), A)
     \<and> length_arc A = (Inr (r * (b - a)), A)"
  using assms
  by (simp add: circle_def frame_def radius_def diameter_def circumference_def angle_def
      length_arc_def start_angle_def end_angle_def)

theorem derived_properties_witness:
  "circle \<lparr>arc_frame = PFrame (7::nat), arc_radius = Some 2, arc_start_angle = Some 1, arc_end_angle = Some 3\<rparr>
     = Inr \<lparr>circle_frame = PFrame 7, circle_radius = 2\<rparr>
   \<and> diameter \<lparr>arc_frame = PFrame (7::nat), arc_radius = Some 2, arc_start_angle = Some 1, arc_end_angle = Some 3\<rparr>
     = Inr 4
   \<and> circumference \<lparr>arc_frame = PFrame (7::nat), arc_radius = Some 2, arc_start_angle = Some 1, arc_end_angle = Some 3\<rparr>
     = Inr (4 * pi)
   \<and> angle \<lparr>arc_frame = PFrame (7::nat), arc_radius = Some 2, arc_start_angle = Some 1, arc_end_angle = Some 3\<rparr>
     = (Inr 2, \<lparr>arc_frame = PFrame 7, arc_radius = Some 2, arc_start_angle = Some 1, arc_end_angle = Some 3\<rparr>)
   \<and> length_arc \<lparr>arc_frame = PFrame (7::nat), arc_radius = Some 2, arc_start_angle = Some 1, arc_end_angle = Some 3\<rparr>
     = (Inr 4, \<lparr>arc_frame = PFrame 7, arc_radius = Some 2, arc_start_angle = Some 1, arc_end_angle = Some 3\<rparr>)"
  using derived_properties [of
      "\<lparr>arc_frame = PFrame (7::nat), arc_radius = Some 2, arc_start_angle = Some 1, arc_end_angle = Some 3\<rparr>"
      2 1 3]
  by simp

subsection \<open>Construction from a circle\<close>

text \<open>
  C7.  For every circle \<open>c\<close> with a radius greater than zero and every pair of angles
  \<open>a\<close>, \<open>b\<close> in \<open>[0, 2\<pi>]\<close>, \<open>Arc.from_circle(c, a, b)\<close> returns an arc whose frame
  is that of \<open>c\<close>, whose radius is that of \<open>c\<close>, whose start angle is \<open>a\<close> and whose
  end angle is \<open>b\<close>, and the \<open>circle\<close> of that arc is \<open>c\<close>.
\<close>

theorem from_circle_preserves:
  assumes "0 < circle_radius c" "0 \<le> a" "a \<le> 2 * pi" "0 \<le> b" "b \<le> 2 * pi"
  shows "from_circle c a b
       = Inr \<lparr>arc_frame = circle_frame c, arc_radius = Some (circle_radius c),
              arc_start_angle = Some a, arc_end_angle = Some b\<rparr>
     \<and> (case from_circle c a b of
          Inl e \<Rightarrow> False
        | Inr A \<Rightarrow>
            frame A = circle_frame c \<and> radius A = Inr (circle_radius c)
            \<and> start_angle A = (a, A) \<and> end_angle A = Inr b
            \<and> circle A = Inr c)"
  using assms
  by (simp add: from_circle_def Arc_init_valid frame_def radius_def start_angle_def
      end_angle_def circle_def)

theorem from_circle_preserves_witness:
  "from_circle \<lparr>circle_frame = PFrame (7::nat), circle_radius = 2\<rparr> 1 3
     = Inr \<lparr>arc_frame = PFrame 7, arc_radius = Some 2, arc_start_angle = Some 1, arc_end_angle = Some 3\<rparr>
   \<and> circle \<lparr>arc_frame = PFrame (7::nat), arc_radius = Some 2, arc_start_angle = Some 1, arc_end_angle = Some 3\<rparr>
     = Inr \<lparr>circle_frame = PFrame 7, circle_radius = 2\<rparr>"
proof -
  have h: "(1::real) \<le> 2 * pi" "(3::real) \<le> 2 * pi"
    using pi_ge_two by simp_all
  show ?thesis
    using from_circle_preserves [of "\<lparr>circle_frame = PFrame (7::nat), circle_radius = 2\<rparr>" 1 3] h
    by (simp cong: conj_cong)
qed

section \<open>Properties of Quaternion\<close>

text \<open>
  What the free functions of the specification return on the components of a quaternion:
  normalisation succeeds whenever the norm is not zero, and canonisation always does.
\<close>

lemma quaternion_unitize_wxyz:
  assumes "quaternion_norm (wxyz q) \<noteq> 0"
  shows "quaternion_unitize (wxyz q)
     = Inr [qw q / quaternion_norm (wxyz q), qx q / quaternion_norm (wxyz q),
            qy q / quaternion_norm (wxyz q), qz q / quaternion_norm (wxyz q)]"
  using assms by (simp add: quaternion_unitize_def wxyz_def Let_def)

lemma quaternion_canonize_wxyz:
  "quaternion_canonize (wxyz q)
     = Inr (if qw q < 0 then [- qw q, - qx q, - qy q, - qz q] else [qw q, qx q, qy q, qz q])"
  by (simp add: wxyz_def)

text \<open>
  C8.  For every quaternion \<open>q\<close> on which the free function returns four numbers (for
  normalisation: whenever the norm is not zero), \<open>unitized\<close> and \<open>canonized\<close> return a
  quaternion built from those numbers and leave the four components of \<open>q\<close> as they were;
  \<open>unitize()\<close> and \<open>canonize()\<close> return nothing, and afterwards the components of
  \<open>q\<close> are those of the quaternion that \<open>unitized\<close> and \<open>canonized\<close> return
  beforehand; and \<open>q1 * q2\<close> returns a quaternion and leaves the components of both operands
  as they were.  This holds whatever the free functions compute.
\<close>

theorem quaternion_frame_effects:
  assumes "fu (wxyz q) = Inr [uw, ux, uy, uz]"
    and "fc (wxyz q) = Inr [cw, cx, cy, cz]"
    and "fm (wxyz q1) (wxyz q2) = Inr [pw, px, py, pz]"
  shows "unitized fu q = (Inr \<lparr>qw = uw, qx = ux, qy = uy, qz = uz\<rparr>, q)
     \<and> unitize fu q = (Inr (), \<lparr>qw = uw, qx = ux, qy = uy, qz = uz\<rparr>)
     \<and> canonized fc q = (Inr \<lparr>qw = cw, qx = cx, qy = cy, qz = cz\<rparr>, q)
     \<and> canonize fc q = (Inr (), \<lparr>qw = cw, qx = cx, qy = cy, qz = cz\<rparr>)
     \<and> mul fm q1 q2 = (Inr \<lparr>qw = pw, qx = px, qy = py, qz = pz\<rparr>, q1, q2)"
  using assms by (simp add: unitized_def unitize_def canonized_def canonize_def mul_def)

theorem quaternion_frame_effects_witness:
  "quaternion_norm (wxyz \<lparr>qw = - 2, qx = 0, qy = 0, qz = 0\<rparr>) = 2
   \<and> unitized quaternion_unitize \<lparr>qw = - 2, qx = 0, qy = 0, qz = 0\<rparr>
     = (Inr \<lparr>qw = - 1, qx = 0, qy = 0, qz = 0\<rparr>, \<lparr>qw = - 2, qx = 0, qy = 0, qz = 0\<rparr>)
   \<and> unitize quaternion_unitize \<lparr>qw = - 2, qx = 0, qy = 0, qz = 0\<rparr>
     = (Inr (), \<lparr>qw = - 1, qx = 0, qy = 0, qz = 0\<rparr>)
   \<and> canonized quaternion_canonize \<lparr>qw = - 2, qx = 0, qy = 0, qz = 0\<rparr>
     = (Inr \<lparr>qw = 2, qx = 0, qy = 0, qz = 0\<rparr>, \<lparr>qw = - 2, qx = 0, qy = 0, qz = 0\<rparr>)
   \<and> canonize quaternion_canonize \<lparr>qw = - 2, qx = 0, qy = 0, qz = 0\<rparr>
     = (Inr (), \<lparr>qw = 2, qx = 0, qy = 0, qz = 0\<rparr>)
   \<and> mul quaternion_multiply \<lparr>qw = 0, qx = 1, qy = 0, qz = 0\<rparr> \<lparr>qw = 0, qx = 0, qy = 1, qz = 0\<rparr>
     = (Inr \<lparr>qw = 0, qx = 0, qy = 0, qz = 1\<rparr>,
        \<lparr>qw = 0, qx = 1, qy = 0, qz = 0\<rparr>, \<lparr>qw = 0, qx = 0, qy = 1, qz = 0\<rparr>)"
proof -
  have n: "quaternion_norm (wxyz \<lparr>qw = - 2, qx = 0, qy = 0, qz = 0\<rparr>) = 2"
    by (simp add: quaternion_norm_def wxyz_def)
  have u: "quaternion_unitize (wxyz \<lparr>qw = - 2, qx = 0, qy = 0, qz = 0\<rparr>) = Inr [- 1, 0, 0, 0]"
    using n by (simp add: quaternion_unitize_wxyz)
  have c: "quaternion_canonize (wxyz \<lparr>qw = - 2, qx = 0, qy = 0, qz = 0\<rparr>) = Inr [2, 0, 0, 0]"
    by (simp add: quaternion_canonize_wxyz)
  have m: "quaternion_multiply (wxyz \<lparr>qw = 0, qx = 1, qy = 0, qz = 0\<rparr>)
             (wxyz \<lparr>qw = 0, qx = 0, qy = 1, qz = 0\<rparr>) = Inr [0, 0, 0, 1]"
    by (simp add: wxyz_def)
  show ?thesis
    using n u c m
      quaternion_frame_effects [of quaternion_unitize "\<lparr>qw = - 2, qx = 0, qy = 0, qz = 0\<rparr>"
        "- 1" 0 0 0 quaternion_canonize 2 0 0 0
        quaternion_multiply "\<lparr>qw = 0, qx = 1, qy = 0, qz = 0\<rparr>"
        "\<lparr>qw = 0, qx = 0, qy = 1, qz = 0\<rparr>" 0 0 0 1]
    by simp
qed

text \<open>
  C9.  For every quaternion \<open>q = (w, x, y, z)\<close>, \<open>conjugate\<close> returns the quaternion
  \<open>(w, -x, -y, -z)\<close> and leaves \<open>q\<close> as it was, and the conjugate of that quaternion has
  the four components of \<open>q\<close>.
\<close>

theorem conjugate_roundtrip:
  "conjugate quaternion_conjugate q
     = (Inr \<lparr>qw = qw q, qx = - qx q, qy = - qy q, qz = - qz q\<rparr>, q)
   \<and> conjugate quaternion_conjugate \<lparr>qw = qw q, qx = - qx q, qy = - qy q, qz = - qz q\<rparr>
     = (Inr q, \<lparr>qw = qw q, qx = - qx q, qy = - qy q, qz = - qz q\<rparr>)"
  by (simp add: conjugate_def wxyz_def)

end
